theory Spec2Isabelle
  imports Complex_Main
begin

section \<open>The genetic algorithm engine of gaft (engine.py)\<close>

text \<open>
  A shallow embedding of \<^verbatim>\<open>GAEngine\<close>. The engine is a record of its
  attributes; every call into code that the engine does not own (the user's fitness
  function, the population's reductions, the genetic operators, the process group
  and the analysis hooks) is a function that takes the state of the world outside the
  engine and returns either an exception or a value, together with the new world.
\<close>

subsection \<open>Exceptions and Python values\<close>

text \<open>
  The exception classes that engine.py raises itself or meets in its own
  expressions, and \<open>UserException\<close> for whatever a collaborator raises.
  Messages are left out.
\<close>

datatype exn =
    AttributeError
  | TypeError
  | ValueError
  | IndexError
  | ZeroDivisionError
  | UserException nat

text \<open>
  A Python \<^verbatim>\<open>float\<close>: a real number, an infinity or NaN. Rounding, overflow of
  a finite result and the sign of zero are not modelled: arithmetic on finite floats is
  arithmetic on the reals.
\<close>

datatype pyfloat = Finite real | PosInf | NegInf | NaN

text \<open>The objects a fitness function is taken to return: the builtin scalars.\<close>

datatype pyobj =
    PyNone
  | PyBool bool
  | PyInt int
  | PyFloat pyfloat
  | PyStr string

text \<open>
  What a fitness function can be called on: a \<^verbatim>\<open>GAIndividual\<close> (an opaque
  reference of type \<open>'i\<close>, so that equality is object identity) or any other object.
\<close>

datatype 'i arg = Indv 'i | Obj pyobj

text \<open>\<^verbatim>\<open>isinstance(indv, GAIndividual)\<close>\<close>

fun is_GAIndividual :: "'i arg \<Rightarrow> bool" where
  "is_GAIndividual (Indv _) = True"
| "is_GAIndividual (Obj _) = False"

text \<open>\<^verbatim>\<open>type(fitness) is float\<close>: exactly float, so neither int nor bool.\<close>

fun type_is_float :: "pyobj \<Rightarrow> bool" where
  "type_is_float (PyFloat _) = True"
| "type_is_float _ = False"

text \<open>\<^verbatim>\<open>math.isnan\<close>, used on floats only (the \<^verbatim>\<open>or\<close> short-circuits).\<close>

fun isnan :: "pyobj \<Rightarrow> bool" where
  "isnan (PyFloat NaN) = True"
| "isnan _ = False"

subsection \<open>Arithmetic of the scaling formulas\<close>

fun fl_neg :: "pyfloat \<Rightarrow> pyfloat" where
  "fl_neg (Finite x) = Finite (- x)"
| "fl_neg PosInf = NegInf"
| "fl_neg NegInf = PosInf"
| "fl_neg NaN = NaN"

fun fl_add :: "pyfloat \<Rightarrow> pyfloat \<Rightarrow> pyfloat" where
  "fl_add (Finite x) (Finite y) = Finite (x + y)"
| "fl_add NaN _ = NaN"
| "fl_add _ NaN = NaN"
| "fl_add PosInf NegInf = NaN"
| "fl_add NegInf PosInf = NaN"
| "fl_add PosInf _ = PosInf"
| "fl_add _ PosInf = PosInf"
| "fl_add NegInf _ = NegInf"
| "fl_add _ NegInf = NegInf"

definition fl_sub :: "pyfloat \<Rightarrow> pyfloat \<Rightarrow> pyfloat" where
  "fl_sub a b = fl_add a (fl_neg b)"

text \<open>The sign of a float that is not NaN: \<open>-1\<close>, \<open>0\<close> or \<open>1\<close>.\<close>

fun fl_sign :: "pyfloat \<Rightarrow> int" where
  "fl_sign (Finite x) = (if x < 0 then - 1 else if x = 0 then 0 else 1)"
| "fl_sign PosInf = 1"
| "fl_sign NegInf = - 1"
| "fl_sign NaN = 0"

fun fl_mul :: "pyfloat \<Rightarrow> pyfloat \<Rightarrow> pyfloat" where
  "fl_mul (Finite x) (Finite y) = Finite (x * y)"
| "fl_mul NaN _ = NaN"
| "fl_mul _ NaN = NaN"
| "fl_mul a b =
     (if fl_sign a * fl_sign b = 0 then NaN
      else if fl_sign a * fl_sign b > 0 then PosInf else NegInf)"

text \<open>
  \<^verbatim>\<open>x ** k\<close> for a float \<open>x\<close> and an int \<open>k\<close>: anything to the power 0 is 1.0, also
  NaN; zero to a negative power raises.
\<close>

fun fl_pow :: "pyfloat \<Rightarrow> int \<Rightarrow> exn + pyfloat" where
  "fl_pow (Finite x) k =
     (if k \<ge> 0 then Inr (Finite (x ^ nat k))
      else if x = 0 then Inl ZeroDivisionError
      else Inr (Finite (1 / x ^ nat (- k))))"
| "fl_pow NaN k = Inr (if k = 0 then Finite 1 else NaN)"
| "fl_pow PosInf k =
     Inr (if k = 0 then Finite 1 else if k > 0 then PosInf else Finite 0)"
| "fl_pow NegInf k =
     Inr (if k = 0 then Finite 1 else if k < 0 then Finite 0
          else if even k then PosInf else NegInf)"

text \<open>The numeric tower: bool is an int, an int converts to a float.\<close>

fun as_int :: "pyobj \<Rightarrow> int option" where
  "as_int (PyBool b) = Some (if b then 1 else 0)"
| "as_int (PyInt i) = Some i"
| "as_int _ = None"

fun as_float :: "pyobj \<Rightarrow> pyfloat option" where
  "as_float (PyBool b) = Some (Finite (if b then 1 else 0))"
| "as_float (PyInt i) = Some (Finite (of_int i))"
| "as_float (PyFloat x) = Some x"
| "as_float _ = None"

text \<open>
  \<^verbatim>\<open>a - b\<close>, \<^verbatim>\<open>a + b\<close> and \<^verbatim>\<open>a * b\<close>: int arithmetic when both are ints,
  float arithmetic when both are numbers, concatenation and repetition of strings, and a
  TypeError otherwise.
\<close>

definition py_sub :: "pyobj \<Rightarrow> pyobj \<Rightarrow> exn + pyobj" where
  "py_sub a b =
     (case (as_int a, as_int b) of
        (Some i, Some j) \<Rightarrow> Inr (PyInt (i - j))
      | _ \<Rightarrow>
        (case (as_float a, as_float b) of
           (Some x, Some y) \<Rightarrow> Inr (PyFloat (fl_sub x y))
         | _ \<Rightarrow> Inl TypeError))"

definition py_add :: "pyobj \<Rightarrow> pyobj \<Rightarrow> exn + pyobj" where
  "py_add a b =
     (case (as_int a, as_int b) of
        (Some i, Some j) \<Rightarrow> Inr (PyInt (i + j))
      | _ \<Rightarrow>
        (case (as_float a, as_float b) of
           (Some x, Some y) \<Rightarrow> Inr (PyFloat (fl_add x y))
         | _ \<Rightarrow>
           (case (a, b) of
              (PyStr s, PyStr t) \<Rightarrow> Inr (PyStr (s @ t))
            | _ \<Rightarrow> Inl TypeError)))"

definition py_mul :: "pyobj \<Rightarrow> pyobj \<Rightarrow> exn + pyobj" where
  "py_mul a b =
     (case (as_int a, as_int b) of
        (Some i, Some j) \<Rightarrow> Inr (PyInt (i * j))
      | _ \<Rightarrow>
        (case (as_float a, as_float b) of
           (Some x, Some y) \<Rightarrow> Inr (PyFloat (fl_mul x y))
         | _ \<Rightarrow>
           (case (a, as_int b) of
              (PyStr s, Some n) \<Rightarrow> Inr (PyStr (concat (replicate (nat n) s)))
            | _ \<Rightarrow>
              (case (as_int a, b) of
                 (Some n, PyStr s) \<Rightarrow> Inr (PyStr (concat (replicate (nat n) s)))
               | _ \<Rightarrow> Inl TypeError))))"

text \<open>
  \<^verbatim>\<open>r ** k\<close> for an int \<open>k\<close> (the exponent of the engine is always
  \<^verbatim>\<open>self.current_generation + 1\<close>): an int base gives an int for \<open>k \<ge> 0\<close> and a
  float for \<open>k < 0\<close>.
\<close>

definition py_pow :: "pyobj \<Rightarrow> int \<Rightarrow> exn + pyobj" where
  "py_pow r k =
     (case as_int r of
        Some i \<Rightarrow>
          (if k \<ge> 0 then Inr (PyInt (i ^ nat k))
           else map_sum id PyFloat (fl_pow (Finite (of_int i)) k))
      | None \<Rightarrow>
        (case as_float r of
           Some x \<Rightarrow> map_sum id PyFloat (fl_pow x k)
         | None \<Rightarrow> Inl TypeError))"

subsection \<open>The engine\<close>

text \<open>
  A call into code outside the engine: from the world before the call to an exception
  or a value, and the world after it.
\<close>

type_synonym ('a, 'w) act = "'w \<Rightarrow> (exn + 'a) \<times> 'w"

text \<open>
  The attributes of the engine that the fitness closures read through \<^verbatim>\<open>self\<close>
  when they are called.
\<close>

record ctx =
  fmax :: pyobj
  fmin :: pyobj
  fmean :: pyobj
  current_generation :: int

text \<open>
  A fitness function: the engine attributes at the time of the call, the argument, then
  the call itself.
\<close>

type_synonym ('i, 'w) fitness_fn = "ctx \<Rightarrow> 'i arg \<Rightarrow> (pyobj, 'w) act"

text \<open>
  Modelled from the spec: \<^verbatim>\<open>GAPopulation\<close> of gaft.components is not part of the
  source; the engine reads its \<^verbatim>\<open>size\<close> (here \<open>pop_size\<close>) and assigns its
  \<^verbatim>\<open>individuals\<close>.
\<close>

record 'i population =
  pop_size :: int
  individuals :: "'i list"

text \<open>
  An analysis hook instance as the engine sees it: its \<^verbatim>\<open>interval\<close>; \<open>hook_name\<close>
  stands for its class. What its methods do is part of the collaborators below.
\<close>

record hook =
  hook_name :: string
  interval :: int

record ('i, 'w) engine = ctx +
  population :: "'i population"
  fitness :: "('i, 'w) fitness_fn option"
  ori_fitness :: "('i, 'w) fitness_fn option"
  analysis :: "hook list"

text \<open>What a closure over \<^verbatim>\<open>self\<close> sees of the engine.\<close>

definition view :: "('i, 'w) engine \<Rightarrow> ctx" where
  "view e = \<lparr>fmax = fmax e, fmin = fmin e, fmean = fmean e,
             current_generation = current_generation e\<rparr>"

text \<open>
  \<^verbatim>\<open>GAEngine.__init__\<close>, lines 42 to 57. The \<^verbatim>\<open>isinstance\<close> checks of
  \<^verbatim>\<open>_check_parameters\<close> hold by typing; the hook classes of the \<^verbatim>\<open>analysis\<close>
  argument are given as the instances they create. Line 44 stores the \<^verbatim>\<open>fitness\<close>
  argument and line 54 assigns \<^verbatim>\<open>None\<close> to the same attribute.
\<close>

definition GAEngine_init ::
  "'i population \<Rightarrow> ('i, 'w) fitness_fn option \<Rightarrow> hook list option \<Rightarrow> ('i, 'w) engine" where
  "GAEngine_init pop fit an =
     (let e1 = \<lparr>fmax = PyNone, fmin = PyNone, fmean = PyNone, current_generation = - 1,
                population = pop, fitness = fit, ori_fitness = None,
                analysis = (case an of None \<Rightarrow> [] | Some hs \<Rightarrow> hs)\<rparr>;
          e2 = e1\<lparr>ori_fitness := None, fitness := None\<rparr>
      in e2)"

subsection \<open>Registering a fitness function\<close>

text \<open>\<^verbatim>\<open>_fn_with_fitness_check\<close>, lines 157 to 172.\<close>

definition fn_with_fitness_check :: "('i, 'w) fitness_fn \<Rightarrow> ('i, 'w) fitness_fn" where
  "fn_with_fitness_check fn c indv w =
     (if \<not> is_GAIndividual indv then (Inl TypeError, w)
      else
        (case fn c indv w of
           (Inl e, w') \<Rightarrow> (Inl e, w')
         | (Inr fit, w') \<Rightarrow>
             (let is_invalid = (\<not> type_is_float fit) \<or> isnan fit
              in if is_invalid then (Inl ValueError, w') else (Inr fit, w'))))"

text \<open>\<^verbatim>\<open>fitness_register\<close>, lines 174 to 176.\<close>

definition fitness_register ::
  "('i, 'w) fitness_fn \<Rightarrow> ('i, 'w) engine \<Rightarrow> ('i, 'w) engine" where
  "fitness_register fn e =
     (let e1 = e\<lparr>fitness := Some (fn_with_fitness_check fn)\<rparr>
      in (case ori_fitness e1 of
            None \<Rightarrow> e1\<lparr>ori_fitness := Some (fn_with_fitness_check fn)\<rparr>
          | Some _ \<Rightarrow> e1))"

text \<open>
  \<^verbatim>\<open>linear_scaling\<close>, lines 205 to 224: applying the decorator stores \<open>fn\<close> as the
  original fitness and returns the scaled function; it does not touch
  \<^verbatim>\<open>self.fitness\<close>.
\<close>

definition fn_with_linear_scaling ::
  "string \<Rightarrow> pyobj \<Rightarrow> ('i, 'w) fitness_fn \<Rightarrow> ('i, 'w) fitness_fn" where
  "fn_with_linear_scaling target ksi fn c indv w =
     (case fn c indv w of
        (Inl e, w') \<Rightarrow> (Inl e, w')
      | (Inr f, w') \<Rightarrow>
          (if target = ''max'' then
             (case py_sub f (fmin c) of
                Inl e \<Rightarrow> (Inl e, w')
              | Inr d \<Rightarrow> (py_add d ksi, w'))
           else if target = ''min'' then
             (case py_sub (fmax c) f of
                Inl e \<Rightarrow> (Inl e, w')
              | Inr d \<Rightarrow> (py_add d ksi, w'))
           else (Inl ValueError, w')))"

definition linear_scaling ::
  "string \<Rightarrow> pyobj \<Rightarrow> ('i, 'w) fitness_fn \<Rightarrow> ('i, 'w) engine
     \<Rightarrow> ('i, 'w) fitness_fn \<times> ('i, 'w) engine" where
  "linear_scaling target ksi fn e =
     (fn_with_linear_scaling target ksi fn, e\<lparr>ori_fitness := Some fn\<rparr>)"

text \<open>\<^verbatim>\<open>dynamic_linear_scaling\<close>, lines 245 to 264.\<close>

definition fn_with_dynamic_linear_scaling ::
  "string \<Rightarrow> pyobj \<Rightarrow> pyobj \<Rightarrow> ('i, 'w) fitness_fn \<Rightarrow> ('i, 'w) fitness_fn" where
  "fn_with_dynamic_linear_scaling target ksi0 r fn c indv w =
     (case fn c indv w of
        (Inl e, w') \<Rightarrow> (Inl e, w')
      | (Inr f, w') \<Rightarrow>
          (let k = current_generation c + 1 in
           if target = ''max'' then
             (case py_sub f (fmin c) of
                Inl e \<Rightarrow> (Inl e, w')
              | Inr d \<Rightarrow>
                  (case py_pow r k of
                     Inl e \<Rightarrow> (Inl e, w')
                   | Inr p \<Rightarrow>
                       (case py_mul ksi0 p of
                          Inl e \<Rightarrow> (Inl e, w')
                        | Inr t \<Rightarrow> (py_add d t, w'))))
           else if target = ''min'' then
             (case py_sub (fmax c) f of
                Inl e \<Rightarrow> (Inl e, w')
              | Inr d \<Rightarrow>
                  (case py_pow r k of
                     Inl e \<Rightarrow> (Inl e, w')
                   | Inr p \<Rightarrow>
                       (case py_mul ksi0 p of
                          Inl e \<Rightarrow> (Inl e, w')
                        | Inr t \<Rightarrow> (py_add d t, w'))))
           else (Inl ValueError, w')))"

definition dynamic_linear_scaling ::
  "string \<Rightarrow> pyobj \<Rightarrow> pyobj \<Rightarrow> ('i, 'w) fitness_fn \<Rightarrow> ('i, 'w) engine
     \<Rightarrow> ('i, 'w) fitness_fn \<times> ('i, 'w) engine" where
  "dynamic_linear_scaling target ksi0 r fn e =
     (fn_with_dynamic_linear_scaling target ksi0 r fn, e\<lparr>ori_fitness := Some fn\<rparr>)"

subsection \<open>Collaborators\<close>

text \<open>
  The code the engine calls and does not own. None of it is part of the source, so it is
  a parameter of the model: the reductions of \<^verbatim>\<open>GAPopulation\<close>
  (\<^verbatim>\<open>max\<close>, \<^verbatim>\<open>min\<close>, \<^verbatim>\<open>mean\<close>, \<^verbatim>\<open>best_indv\<close>), the operators held in
  \<^verbatim>\<open>self.selection\<close>, \<^verbatim>\<open>self.crossover\<close> and \<^verbatim>\<open>self.mutation\<close>,
  \<^verbatim>\<open>mpi.split_size\<close> and \<^verbatim>\<open>mpi.merge_seq\<close>, and the three methods of an
  analysis hook (\<open>hook_setup\<close> is its \<^verbatim>\<open>setup\<close>). Each may raise, and each may
  change the world (random number generators, files, the state of a hook). A fitness
  function is handed over as the callable it is. The engine and the population are
  handed over by value: as the spec has it, the statistics, the generation counter and
  the individuals are assigned by the loop of the engine alone, never by an operator or
  a hook.
\<close>

record ('i, 'w) collaborators =
  pop_max :: "'i population \<Rightarrow> ('i arg \<Rightarrow> (pyobj, 'w) act) \<Rightarrow> (pyobj, 'w) act"
  pop_min :: "'i population \<Rightarrow> ('i arg \<Rightarrow> (pyobj, 'w) act) \<Rightarrow> (pyobj, 'w) act"
  pop_mean :: "'i population \<Rightarrow> ('i arg \<Rightarrow> (pyobj, 'w) act) \<Rightarrow> (pyobj, 'w) act"
  best_indv :: "'i population \<Rightarrow> ('i arg \<Rightarrow> (pyobj, 'w) act) \<Rightarrow> ('i, 'w) act"
  select :: "'i population \<Rightarrow> ('i arg \<Rightarrow> (pyobj, 'w) act) \<Rightarrow> ('i list, 'w) act"
  cross :: "'i list \<Rightarrow> ('i list, 'w) act"
  mutate :: "'i \<Rightarrow> ('i, 'w) engine \<Rightarrow> ('i, 'w) act"
  split_size :: "int \<Rightarrow> (int, 'w) act"
  merge_seq :: "'i list \<Rightarrow> ('i list, 'w) act"
  hook_setup :: "hook \<Rightarrow> int \<Rightarrow> ('i, 'w) engine \<Rightarrow> (unit, 'w) act"
  register_step :: "hook \<Rightarrow> int \<Rightarrow> 'i population \<Rightarrow> ('i, 'w) engine \<Rightarrow> (unit, 'w) act"
  finalize :: "hook \<Rightarrow> 'i population \<Rightarrow> ('i, 'w) engine \<Rightarrow> (unit, 'w) act"

text \<open>
  Calling the attribute \<^verbatim>\<open>self.fitness\<close> or \<^verbatim>\<open>self.ori_fitness\<close>:
  \<^verbatim>\<open>None\<close> is not callable.
\<close>

definition call_fitness :: "('i, 'w) fitness_fn option \<Rightarrow> ctx \<Rightarrow> 'i arg \<Rightarrow> (pyobj, 'w) act" where
  "call_fitness f c indv w =
     (case f of None \<Rightarrow> (Inl TypeError, w) | Some fn \<Rightarrow> fn c indv w)"

subsection \<open>The state of a run\<close>

text \<open>
  The calls of hook methods that the engine makes, in order. A hook is named by its
  position in \<^verbatim>\<open>self.analysis\<close>, so that two instances of one class are told
  apart. The list is an observer of the model, not an attribute of the engine.
\<close>

datatype event = Setup nat int | RegisterStep nat int | Finalize nat

record ('i, 'w) state =
  self :: "('i, 'w) engine"
  world :: 'w
  calls :: "event list"

type_synonym ('a, 'i, 'w) step = "('i, 'w) state \<Rightarrow> (exn + 'a) \<times> ('i, 'w) state"

text \<open>One statement after another: an exception ends the sequence.\<close>

definition bind_m :: "('a, 'i, 'w) step \<Rightarrow> ('a \<Rightarrow> ('b, 'i, 'w) step) \<Rightarrow> ('b, 'i, 'w) step" where
  "bind_m m f s = (case m s of (Inl e, s') \<Rightarrow> (Inl e, s') | (Inr a, s') \<Rightarrow> f a s')"

text \<open>A call of a collaborator, and a call of a hook method, which is recorded.\<close>

definition call :: "('a, 'w) act \<Rightarrow> ('a, 'i, 'w) step" where
  "call m s = (case m (world s) of (r, w') \<Rightarrow> (r, s\<lparr>world := w'\<rparr>))"

definition invoke :: "event \<Rightarrow> ('a, 'w) act \<Rightarrow> ('a, 'i, 'w) step" where
  "invoke ev m s =
     (case m (world s) of (r, w') \<Rightarrow> (r, s\<lparr>world := w', calls := calls s @ [ev]\<rparr>))"

subsection \<open>\<^verbatim>\<open>GAEngine.run\<close>\<close>

text \<open>
  Lines 73 to 75 and again 111 to 113: the three statistics, each assigned as soon as
  its reduction returns.
\<close>

definition update_stats :: "('i, 'w) collaborators \<Rightarrow> (unit, 'i, 'w) step" where
  "update_stats C =
     bind_m (\<lambda>s. call (pop_max C (population (self s))
                        (call_fitness (ori_fitness (self s)) (view (self s)))) s)
       (\<lambda>v s1. bind_m (\<lambda>s. call (pop_min C (population (self s))
                        (call_fitness (ori_fitness (self s)) (view (self s)))) s)
          (\<lambda>v s2. bind_m (\<lambda>s. call (pop_mean C (population (self s))
                        (call_fitness (ori_fitness (self s)) (view (self s)))) s)
             (\<lambda>v s3. (Inr (), s3\<lparr>self := (self s3)\<lparr>fmean := v\<rparr>\<rparr>))
             (s2\<lparr>self := (self s2)\<lparr>fmin := v\<rparr>\<rparr>))
          (s1\<lparr>self := (self s1)\<lparr>fmax := v\<rparr>\<rparr>))"

text \<open>Lines 78 and 79: \<^verbatim>\<open>a.setup(ng=ng, engine=self)\<close> for every hook, in order.\<close>

primrec setup_all ::
  "('i, 'w) collaborators \<Rightarrow> int \<Rightarrow> nat \<Rightarrow> hook list \<Rightarrow> (unit, 'i, 'w) step" where
  "setup_all C ng i [] = (\<lambda>s. (Inr (), s))"
| "setup_all C ng i (a # as) =
     bind_m (\<lambda>s. invoke (Setup i ng) (hook_setup C a ng (self s)) s)
       (\<lambda>_. setup_all C ng (Suc i) as)"

text \<open>Line 99: the list comprehension that mutates the children one after another.\<close>

primrec mutate_all :: "('i, 'w) collaborators \<Rightarrow> 'i list \<Rightarrow> ('i list, 'i, 'w) step" where
  "mutate_all C [] = (\<lambda>s. (Inr [], s))"
| "mutate_all C (child # rest) =
     bind_m (\<lambda>s. call (mutate C child (self s)) s)
       (\<lambda>m. bind_m (mutate_all C rest) (\<lambda>ms s. (Inr (m # ms), s)))"

text \<open>
  Lines 93 to 101: \<^verbatim>\<open>for _ in range(local_size)\<close>, with the list
  \<^verbatim>\<open>local_indvs\<close> that the loop extends.
\<close>

primrec fill ::
  "('i, 'w) collaborators \<Rightarrow> nat \<Rightarrow> 'i list \<Rightarrow> ('i list, 'i, 'w) step" where
  "fill C 0 = (\<lambda>local_indvs s. (Inr local_indvs, s))"
| "fill C (Suc n) = (\<lambda>local_indvs.
     bind_m (\<lambda>s. call (select C (population (self s))
                        (call_fitness (fitness (self s)) (view (self s)))) s)
       (\<lambda>parents. bind_m (call (cross C parents))
          (\<lambda>children. bind_m (mutate_all C children)
             (\<lambda>children'. fill C n (local_indvs @ children')))))"

text \<open>
  Lines 84 to 108: the generation counter, the best individual of the population as it
  is, the offspring, and the assignment of the new individuals.
  \<^verbatim>\<open>indvs[0] = best_indv\<close> raises IndexError on an empty list.
\<close>

definition next_generation :: "('i, 'w) collaborators \<Rightarrow> int \<Rightarrow> (unit, 'i, 'w) step" where
  "next_generation C g s =
     bind_m (\<lambda>s. call (best_indv C (population (self s))
                        (call_fitness (fitness (self s)) (view (self s)))) s)
       (\<lambda>best. bind_m (\<lambda>s. call (split_size C (pop_size (population (self s)) div 2)) s)
          (\<lambda>local_size. bind_m (fill C (nat local_size) [])
             (\<lambda>local_indvs. bind_m (call (merge_seq C local_indvs))
                (\<lambda>indvs s.
                   (case indvs of
                      [] \<Rightarrow> (Inl IndexError, s)
                    | _ # _ \<Rightarrow>
                        (Inr (), s\<lparr>self := (self s)\<lparr>population :=
                           (population (self s))\<lparr>individuals := indvs[0 := best]\<rparr>\<rparr>\<rparr>))))))
       (s\<lparr>self := (self s)\<lparr>current_generation := g\<rparr>\<rparr>)"

text \<open>
  Lines 116 to 118: \<^verbatim>\<open>g % a.interval\<close> raises ZeroDivisionError for an interval
  of 0; otherwise Python's \<^verbatim>\<open>%\<close> on ints is \<open>mod\<close>.
\<close>

primrec run_analysis ::
  "('i, 'w) collaborators \<Rightarrow> int \<Rightarrow> nat \<Rightarrow> hook list \<Rightarrow> (unit, 'i, 'w) step" where
  "run_analysis C g i [] = (\<lambda>s. (Inr (), s))"
| "run_analysis C g i (a # as) = (\<lambda>s.
     if interval a = 0 then (Inl ZeroDivisionError, s)
     else if g mod interval a = 0 then
       bind_m (\<lambda>s. invoke (RegisterStep i g)
                     (register_step C a g (population (self s)) (self s)) s)
         (\<lambda>_. run_analysis C g (Suc i) as) s
     else run_analysis C g (Suc i) as s)"

text \<open>Lines 84 to 118: the body of the loop for generation \<open>g\<close>.\<close>

definition generation :: "('i, 'w) collaborators \<Rightarrow> int \<Rightarrow> (unit, 'i, 'w) step" where
  "generation C g =
     bind_m (next_generation C g)
       (\<lambda>_. bind_m (update_stats C)
          (\<lambda>_ s. run_analysis C g 0 (analysis (self s)) s))"

text \<open>Line 83: \<^verbatim>\<open>for g in range(ng)\<close>; an exception leaves the loop.\<close>

primrec evolve :: "('i, 'w) collaborators \<Rightarrow> nat list \<Rightarrow> (unit, 'i, 'w) step" where
  "evolve C [] = (\<lambda>s. (Inr (), s))"
| "evolve C (g # gs) = bind_m (generation C (int g)) (\<lambda>_. evolve C gs)"

text \<open>Lines 129 and 130.\<close>

primrec finalize_all ::
  "('i, 'w) collaborators \<Rightarrow> nat \<Rightarrow> hook list \<Rightarrow> (unit, 'i, 'w) step" where
  "finalize_all C i [] = (\<lambda>s. (Inr (), s))"
| "finalize_all C i (a # as) =
     bind_m (\<lambda>s. invoke (Finalize i) (finalize C a (population (self s)) (self s)) s)
       (\<lambda>_. finalize_all C (Suc i) as)"

text \<open>
  Lines 82 and 119 to 130: the \<^verbatim>\<open>except\<close> clause logs and raises the exception it
  caught; the \<^verbatim>\<open>finally\<close> clause runs on both ways out of the loop, and an
  exception of its own replaces the one of the loop.
\<close>

definition try_finally :: "(unit, 'i, 'w) step \<Rightarrow> (unit, 'i, 'w) step \<Rightarrow> (unit, 'i, 'w) step" where
  "try_finally body fin s =
     (case body s of
        (r, s1) \<Rightarrow>
          (case fin s1 of
             (Inl e, s2) \<Rightarrow> (Inl e, s2)
           | (Inr _, s2) \<Rightarrow> (r, s2)))"

definition cleanup :: "('i, 'w) collaborators \<Rightarrow> (unit, 'i, 'w) step" where
  "cleanup C s =
     (\<lambda>s. finalize_all C 0 (analysis (self s)) s)
       (s\<lparr>self := (self s)\<lparr>current_generation := - 1\<rparr>\<rparr>)"

text \<open>
  \<^verbatim>\<open>run\<close>, lines 69 to 130. \<^verbatim>\<open>range(ng)\<close> is empty for a negative \<open>ng\<close>.
\<close>

definition run :: "('i, 'w) collaborators \<Rightarrow> int \<Rightarrow> (unit, 'i, 'w) step" where
  "run C ng s =
     (case fitness (self s) of
        None \<Rightarrow> (Inl AttributeError, s)
      | Some _ \<Rightarrow>
          bind_m (update_stats C)
            (\<lambda>_. bind_m (\<lambda>s. setup_all C ng 0 (analysis (self s)) s)
               (\<lambda>_. try_finally (evolve C [0..<nat ng]) (cleanup C))) s)"

subsection \<open>Observations\<close>

text \<open>
  The attributes of the engine that \<^verbatim>\<open>run\<close> never assigns: the size of the
  population, the hooks and the two fitness functions.
\<close>

definition config :: "('i, 'w) engine \<Rightarrow> int \<times> hook list \<times> ('i, 'w) fitness_fn option \<times> ('i, 'w) fitness_fn option" where
  "config e = (pop_size (population e), analysis e, fitness e, ori_fitness e)"

text \<open>The hooks whose \<^verbatim>\<open>finalize\<close> was called, in the order of the calls.\<close>

definition finalize_calls :: "event list \<Rightarrow> nat list" where
  "finalize_calls evs = concat (map (\<lambda>ev. case ev of Finalize i \<Rightarrow> [i] | _ \<Rightarrow> []) evs)"


subsection \<open>Instrumentation and concrete inputs\<close>

text \<open>
  Counting the calls of a fitness function: the world gets a counter that every call of
  \<open>counted fn\<close> increments, whatever \<open>fn\<close> itself does.
\<close>

definition counted :: "('i, 'w) fitness_fn \<Rightarrow> ('i, nat \<times> 'w) fitness_fn" where
  "counted fn c indv nw =
     (case fn c indv (snd nw) of (r, w') \<Rightarrow> (r, (Suc (fst nw), w')))"

text \<open>The engine attributes of an engine that is not running and has no statistics yet.\<close>

definition idle_ctx :: ctx where
  "idle_ctx = \<lparr>fmax = PyNone, fmin = PyNone, fmean = PyNone, current_generation = - 1\<rparr>"

text \<open>A fitness function that returns the same object for every individual.\<close>

definition const_fitness :: "pyobj \<Rightarrow> (nat, unit) fitness_fn" where
  "const_fitness v c indv w = (Inr v, w)"


definition fresh_engine :: "(nat, unit) engine" where
  "fresh_engine = GAEngine_init \<lparr>pop_size = 2, individuals = [0, 1]\<rparr> None None"


definition one_fitness :: "(nat, unit) fitness_fn" where
  "one_fitness = const_fitness (PyFloat (Finite 1))"

definition two_fitness :: "(nat, unit) fitness_fn" where
  "two_fitness = const_fitness (PyFloat (Finite 2))"

text \<open>
  The spec's words for the result a fitness function must return, "a finite real
  number": an int, a bool (an int in Python) or a float that is neither an infinity nor
  NaN.
\<close>

fun is_finite_real :: "pyobj \<Rightarrow> bool" where
  "is_finite_real (PyInt _) = True"
| "is_finite_real (PyBool _) = True"
| "is_finite_real (PyFloat (Finite _)) = True"
| "is_finite_real _ = False"

subsection \<open>A single-process deployment for the examples\<close>

text \<open>
  Stand-ins for the collaborators, used where a theorem is applied to a concrete run.
  Individuals are numbered. The population evaluates the fitness of every individual,
  in order, and expects finite numbers.
\<close>

primrec all_fits :: "'i list \<Rightarrow> ('i arg \<Rightarrow> (pyobj, 'w) act) \<Rightarrow> (real list, 'w) act" where
  "all_fits [] f = (\<lambda>w. (Inr [], w))"
| "all_fits (x # xs) f = (\<lambda>w.
     (case f (Indv x) w of
        (Inl e, w1) \<Rightarrow> (Inl e, w1)
      | (Inr v, w1) \<Rightarrow>
          (case as_float v of
             Some (Finite r) \<Rightarrow>
               (case all_fits xs f w1 of
                  (Inl e, w2) \<Rightarrow> (Inl e, w2)
                | (Inr rs, w2) \<Rightarrow> (Inr (r # rs), w2))
           | _ \<Rightarrow> (Inl TypeError, w1))))"

text \<open>The first individual of greatest fitness.\<close>

fun best_of :: "'i \<Rightarrow> real \<Rightarrow> 'i list \<Rightarrow> real list \<Rightarrow> 'i" where
  "best_of b r (x # xs) (y # ys) = (if r < y then best_of x y xs ys else best_of b r xs ys)"
| "best_of b r _ _ = b"

text \<open>
  \<^verbatim>\<open>max\<close>, \<^verbatim>\<open>min\<close> and \<^verbatim>\<open>mean\<close> of the fitness values; \<open>exc\<close> is what
  Python raises on an empty population.
\<close>

definition reduce_fits ::
  "(real \<Rightarrow> real list \<Rightarrow> real) \<Rightarrow> exn \<Rightarrow> 'i population \<Rightarrow> ('i arg \<Rightarrow> (pyobj, 'w) act)
     \<Rightarrow> (pyobj, 'w) act" where
  "reduce_fits red exc p f w =
     (case all_fits (individuals p) f w of
        (Inl e, w') \<Rightarrow> (Inl e, w')
      | (Inr [], w') \<Rightarrow> (Inl exc, w')
      | (Inr (r # rs), w') \<Rightarrow> (Inr (PyFloat (Finite (red r rs))), w'))"

text \<open>
  Modelled from the spec: the degenerate coordinator of a single-process deployment,
  \<open>split(n) = n\<close> and \<open>merge(seq) = seq\<close>. Selection takes the first two
  individuals, crossover swaps them, mutation makes a new individual and raises in the
  generation \<open>fails_at\<close>, if any; the hooks do nothing.
\<close>

definition single_process :: "int option \<Rightarrow> (nat, 'w) collaborators" where
  "single_process fails_at =
     \<lparr>pop_max = reduce_fits (\<lambda>r rs. fold max rs r) ValueError,
      pop_min = reduce_fits (\<lambda>r rs. fold min rs r) ValueError,
      pop_mean = reduce_fits (\<lambda>r rs. sum_list (r # rs) / real (length (r # rs))) ZeroDivisionError,
      best_indv = (\<lambda>p f w.
         (case all_fits (individuals p) f w of
            (Inl e, w') \<Rightarrow> (Inl e, w')
          | (Inr rs, w') \<Rightarrow>
              (case (individuals p, rs) of
                 (x # xs, r # rs') \<Rightarrow> (Inr (best_of x r xs rs'), w')
               | _ \<Rightarrow> (Inl ValueError, w')))),
      select = (\<lambda>p f w. (Inr (take 2 (individuals p)), w)),
      cross = (\<lambda>ps w. (if length ps = 2 then Inr (rev ps) else Inl TypeError, w)),
      mutate = (\<lambda>child e w.
         (if Some (current_generation e) = fails_at then Inl (UserException 0)
          else Inr (child + 10), w)),
      split_size = (\<lambda>n w. (Inr n, w)),
      merge_seq = (\<lambda>xs w. (Inr xs, w)),
      hook_setup = (\<lambda>a ng e w. (Inr (), w)),
      register_step = (\<lambda>a g p e w. (Inr (), w)),
      finalize = (\<lambda>a p e w. (Inr (), w))\<rparr>"

text \<open>A raw fitness function: the number of the individual.\<close>

definition id_fitness :: "(nat, 'w) fitness_fn" where
  "id_fitness c indv w =
     (case indv of
        Indv n \<Rightarrow> (Inr (PyFloat (Finite (real n))), w)
      | Obj _ \<Rightarrow> (Inl AttributeError, w))"

text \<open>
  An engine with two hooks, of interval 1 and 2, on a population of two individuals:
  as the constructor leaves it, and after \<^verbatim>\<open>fitness_register\<close>.
\<close>

definition two_hooks :: "hook list" where
  "two_hooks = [\<lparr>hook_name = ''every'', interval = 1\<rparr>, \<lparr>hook_name = ''second'', interval = 2\<rparr>]"

definition unregistered :: "(nat, unit) state" where
  "unregistered =
     \<lparr>self = GAEngine_init \<lparr>pop_size = 2, individuals = [1, 2]\<rparr> None (Some two_hooks),
      world = (), calls = []\<rparr>"

definition registered :: "(nat, unit) state" where
  "registered = unregistered\<lparr>self := fitness_register id_fitness (self unregistered)\<rparr>"

section \<open>Properties\<close>

text \<open>The equations that evaluate a run of the single-process deployment.\<close>

lemmas run_simps = run_def update_stats_def generation_def next_generation_def cleanup_def
  try_finally_def bind_m_def call_def invoke_def call_fitness_def view_def
  single_process_def reduce_fits_def id_fitness_def two_hooks_def unregistered_def
  registered_def GAEngine_init_def fitness_register_def fn_with_fitness_check_def Let_def
  finalize_calls_def eval_nat_numeral

subsection \<open>Fitness registration\<close>

text \<open>
  C10. The function that \<^verbatim>\<open>fitness_register\<close> installs, called on an argument that
  is not a GAIndividual, raises TypeError without calling the user's function: for
  every user function the world is left as it was, and a counter of the calls of the
  user function keeps its value.
\<close>

theorem C10_not_individual_raises_before_call:
  "fitness (fitness_register fn e) = Some (fn_with_fitness_check fn)
   \<and> fn_with_fitness_check fn c (Obj x) w = (Inl TypeError, w)
   \<and> fn_with_fitness_check (counted fn) c (Obj x) (n, w) = (Inl TypeError, (n, w))"
  by (simp add: fitness_register_def fn_with_fitness_check_def Let_def split: option.split)

theorem C10_not_individual_raises_before_call_witness:
  "fitness (fitness_register (const_fitness (PyFloat (Finite 2))) (GAEngine_init \<lparr>pop_size = 0, individuals = []\<rparr> None None))
     = Some (fn_with_fitness_check (const_fitness (PyFloat (Finite 2))))
   \<and> fn_with_fitness_check (const_fitness (PyFloat (Finite 2))) idle_ctx (Obj (PyInt 7)) ()
       = (Inl TypeError, ())
   \<and> fn_with_fitness_check (counted (const_fitness (PyFloat (Finite 2)))) idle_ctx
         (Obj (PyInt 7)) (0, ())
       = (Inl TypeError, (0, ()))"
  by (rule C10_not_individual_raises_before_call)

text \<open>
  C8, as the spec states it, fails in both directions: an int is a finite real number
  and is rejected, an infinity is not finite and is accepted.
\<close>

theorem C8_int_rejected_inf_accepted:
  "is_finite_real (PyInt 3)
   \<and> fn_with_fitness_check (const_fitness (PyInt 3)) idle_ctx (Indv 0) ()
       = (Inl ValueError, ())
   \<and> \<not> is_finite_real (PyFloat PosInf)
   \<and> fn_with_fitness_check (const_fitness (PyFloat PosInf)) idle_ctx (Indv 0) ()
       = (Inr (PyFloat PosInf), ())"
  by (simp add: fn_with_fitness_check_def const_fitness_def)

text \<open>
  C8, amended. When the function given to \<^verbatim>\<open>fitness_register\<close> (scaled or not)
  returns an object for an individual, the registered function raises ValueError if and
  only if the object is not of type float exactly or is NaN; every other float, the
  infinities included, is returned as it is, and so is the world the function left.
\<close>

theorem C8_value_error_iff_not_float_or_nan:
  assumes "fn c (Indv x) w = (Inr fit, w')"
  shows "(fst (fn_with_fitness_check fn c (Indv x) w) = Inl ValueError
            \<longleftrightarrow> \<not> (\<exists>v. fit = PyFloat v \<and> v \<noteq> NaN))
         \<and> ((\<exists>v. fit = PyFloat v \<and> v \<noteq> NaN)
            \<longrightarrow> fn_with_fitness_check fn c (Indv x) w = (Inr fit, w'))"
proof (cases fit)
  case (PyFloat v)
  with assms show ?thesis
    by (cases v) (simp_all add: fn_with_fitness_check_def)
qed (use assms in \<open>simp_all add: fn_with_fitness_check_def\<close>)

theorem C8_value_error_iff_not_float_or_nan_witness:
  "const_fitness (PyFloat (Finite 2)) idle_ctx (Indv 0) () = (Inr (PyFloat (Finite 2)), ())
   \<and> fn_with_fitness_check (const_fitness (PyFloat (Finite 2))) idle_ctx (Indv 0) ()
       = (Inr (PyFloat (Finite 2)), ())"
proof -
  have h: "const_fitness (PyFloat (Finite 2)) idle_ctx (Indv 0) ()
             = (Inr (PyFloat (Finite 2)), ())"
    by (simp add: const_fitness_def)
  from C8_value_error_iff_not_float_or_nan
         [where fn = "const_fitness (PyFloat (Finite 2))" and c = idle_ctx and x = 0
            and w = "()" and fit = "PyFloat (Finite 2)" and w' = "()"] h
  show ?thesis
    by simp
qed

subsection \<open>Which function is registered\<close>

text \<open>
  C4, as the spec states it, fails for a second plain registration: the original
  fitness stays the checked first function (value 1 on individual 0) although the
  function registered last returns 2. And applying a scaling decorator alone leaves the
  active fitness as it was.
\<close>

theorem C4_second_plain_registration_keeps_basis:
  "ori_fitness (fitness_register two_fitness (fitness_register one_fitness fresh_engine))
     = Some (fn_with_fitness_check one_fitness)
   \<and> fn_with_fitness_check one_fitness idle_ctx (Indv 0) () = (Inr (PyFloat (Finite 1)), ())
   \<and> two_fitness idle_ctx (Indv 0) () = (Inr (PyFloat (Finite 2)), ())
   \<and> fitness (snd (linear_scaling ''max'' (PyFloat (Finite (1 / 2))) two_fitness
                     (fitness_register one_fitness fresh_engine)))
     = Some (fn_with_fitness_check one_fitness)"
  by (simp add: fitness_register_def fresh_engine_def GAEngine_init_def Let_def
        fn_with_fitness_check_def one_fitness_def two_fitness_def const_fitness_def
        linear_scaling_def)

text \<open>
  C4, amended. \<^verbatim>\<open>fitness_register\<close> always replaces the active fitness by the
  checked wrapper of its argument, and makes that wrapper the original fitness only when
  none is set yet. Applying either scaling decorator makes the raw function the original
  fitness, whatever it was, and leaves the active fitness alone; registering the scaled
  function it returns, as the decorator idiom does, makes the checked scaled function
  the active fitness and keeps the raw function as the original one.
\<close>

theorem C4_registration:
  "fitness (fitness_register fn e) = Some (fn_with_fitness_check fn)
   \<and> ori_fitness (fitness_register fn e)
       = (case ori_fitness e of None \<Rightarrow> Some (fn_with_fitness_check fn) | Some g \<Rightarrow> Some g)
   \<and> ori_fitness (snd (linear_scaling target ksi fn e)) = Some fn
   \<and> fitness (snd (linear_scaling target ksi fn e)) = fitness e
   \<and> ori_fitness (fitness_register (fst (linear_scaling target ksi fn e))
                    (snd (linear_scaling target ksi fn e))) = Some fn
   \<and> fitness (fitness_register (fst (linear_scaling target ksi fn e))
                (snd (linear_scaling target ksi fn e)))
       = Some (fn_with_fitness_check (fn_with_linear_scaling target ksi fn))
   \<and> ori_fitness (snd (dynamic_linear_scaling target ksi0 r fn e)) = Some fn
   \<and> fitness (snd (dynamic_linear_scaling target ksi0 r fn e)) = fitness e
   \<and> ori_fitness (fitness_register (fst (dynamic_linear_scaling target ksi0 r fn e))
                    (snd (dynamic_linear_scaling target ksi0 r fn e))) = Some fn
   \<and> fitness (fitness_register (fst (dynamic_linear_scaling target ksi0 r fn e))
                (snd (dynamic_linear_scaling target ksi0 r fn e)))
       = Some (fn_with_fitness_check (fn_with_dynamic_linear_scaling target ksi0 r fn))"
  by (simp add: fitness_register_def linear_scaling_def dynamic_linear_scaling_def Let_def
        split: option.split)

theorem C4_registration_witness:
  "fitness (fitness_register two_fitness (fitness_register one_fitness fresh_engine))
     = Some (fn_with_fitness_check two_fitness)
   \<and> ori_fitness (fitness_register
         (fst (linear_scaling ''max'' (PyFloat (Finite (1 / 2))) two_fitness
                (fitness_register one_fitness fresh_engine)))
         (snd (linear_scaling ''max'' (PyFloat (Finite (1 / 2))) two_fitness
                (fitness_register one_fitness fresh_engine))))
     = Some two_fitness"
  using C4_registration [of two_fitness "fitness_register one_fitness fresh_engine"
          "''max''" "PyFloat (Finite (1 / 2))" "PyInt 2" "PyFloat (Finite (9 / 10))"]
  by simp

subsection \<open>The scaling formulas\<close>









subsection \<open>What the steps of a run keep and append\<close>

lemma bind_mE:
  assumes "bind_m m f s = (r, s')"
  obtains (raised) e where "m s = (Inl e, s')" and "r = Inl e"
        | (returned) a s1 where "m s = (Inr a, s1)" and "f a s1 = (r, s')"
  using assms by (auto simp: bind_m_def split: prod.splits sum.splits)

lemma bind_m_returns:
  "m s = (Inr a, s1) \<Longrightarrow> bind_m m f s = f a s1"
  by (simp add: bind_m_def)

lemma bind_m_raises:
  "m s = (Inl e, s1) \<Longrightarrow> bind_m m f s = (Inl e, s1)"
  by (simp add: bind_m_def)

lemma call_keeps:
  assumes "call m s = (r, s')"
  shows "self s' = self s \<and> calls s' = calls s"
  using assms by (auto simp: call_def split: prod.splits)

lemma invoke_appends:
  assumes "invoke ev m s = (r, s')"
  shows "self s' = self s \<and> calls s' = calls s @ [ev]"
  using assms by (auto simp: invoke_def split: prod.splits)

lemma mutate_all_keeps:
  "mutate_all C cs s = (r, s') \<Longrightarrow> self s' = self s \<and> calls s' = calls s"
proof (induction cs arbitrary: s r s')
  case Nil
  then show ?case by simp
next
  case (Cons c cs)
  from Cons.prems show ?case
    by (auto elim!: bind_mE dest!: call_keeps Cons.IH)
qed



lemma fill_keeps:
  "fill C n acc s = (r, s') \<Longrightarrow> self s' = self s \<and> calls s' = calls s"
proof (induction n arbitrary: acc s r s')
  case 0
  then show ?case by simp
next
  case (Suc n)
  from Suc.prems show ?case
    by (auto elim!: bind_mE dest!: call_keeps mutate_all_keeps Suc.IH)
qed



lemma update_stats_keeps:
  assumes "update_stats C s = (r, s')"
  shows "calls s' = calls s \<and> config (self s') = config (self s)
         \<and> population (self s') = population (self s)
         \<and> current_generation (self s') = current_generation (self s)"
  using assms unfolding update_stats_def
  by (auto elim!: bind_mE dest!: call_keeps simp: config_def)




lemma run_analysis_keeps:
  "run_analysis C g i hs s = (r, s') \<Longrightarrow>
     self s' = self s \<and> finalize_calls (calls s') = finalize_calls (calls s)"
proof (induction hs arbitrary: i s r s')
  case Nil
  then show ?case by simp
next
  case (Cons a hs)
  from Cons.prems show ?case
    by (auto elim!: bind_mE dest!: invoke_appends Cons.IH simp: finalize_calls_def
          split: if_splits)
qed









subsection \<open>Running without a fitness function\<close>

lemma run_without_fitness:
  "fitness (self s) = None \<Longrightarrow> run C ng s = (Inl AttributeError, s)"
  by (simp add: run_def)

text \<open>
  C2. \<^verbatim>\<open>run\<close> raises AttributeError at once and leaves the engine, the world and
  the hooks untouched when no fitness function is set. The claim says that a fitness
  function given to the constructor counts as set; the code stores it at line 44 and
  overwrites it with \<^verbatim>\<open>None\<close> at line 54, so \<^verbatim>\<open>run\<close> on the engine just built
  raises the missing-fitness error.
\<close>

theorem C2_constructor_fitness_is_discarded:
  "(fitness (self s) = None \<longrightarrow> run C ng s = (Inl AttributeError, s))
   \<and> fitness (GAEngine_init pop (Some fn) an) = None
   \<and> run C ng \<lparr>self = GAEngine_init pop (Some fn) an, world = w, calls = cs\<rparr>
       = (Inl AttributeError,
          \<lparr>self = GAEngine_init pop (Some fn) an, world = w, calls = cs\<rparr>)"
  by (simp add: run_def GAEngine_init_def Let_def)

theorem C2_constructor_fitness_is_discarded_witness:
  "fitness (self unregistered) = None
   \<and> run (single_process None) 3 unregistered = (Inl AttributeError, unregistered)
   \<and> run (single_process None) 3
         \<lparr>self = GAEngine_init \<lparr>pop_size = 2, individuals = [1, 2]\<rparr> (Some id_fitness)
                   (Some two_hooks),
          world = (), calls = []\<rparr>
       = (Inl AttributeError,
          \<lparr>self = GAEngine_init \<lparr>pop_size = 2, individuals = [1, 2]\<rparr> (Some id_fitness)
                    (Some two_hooks),
           world = (), calls = []\<rparr>)"
  using C2_constructor_fitness_is_discarded
          [of unregistered "single_process None" 3 "\<lparr>pop_size = 2, individuals = [1, 2]\<rparr>"
              id_fitness "Some two_hooks" "()" "[]"]
  by (simp add: unregistered_def GAEngine_init_def)

subsection \<open>Elitism\<close>

lemma next_generation_returnsE:
  assumes "next_generation C g s = (Inr (), s1)"
  obtains b sa local_size sb local_indvs sc indvs sd where
    "call (best_indv C (population (self s))
            (call_fitness (fitness (self s)) (view ((self s)\<lparr>current_generation := g\<rparr>))))
       (s\<lparr>self := (self s)\<lparr>current_generation := g\<rparr>\<rparr>) = (Inr b, sa)"
    and "call (split_size C (pop_size (population (self sa)) div 2)) sa = (Inr local_size, sb)"
    and "fill C (nat local_size) [] sb = (Inr local_indvs, sc)"
    and "call (merge_seq C local_indvs) sc = (Inr indvs, sd)"
    and "indvs \<noteq> []"
    and "s1 = sd\<lparr>self := (self sd)\<lparr>population :=
                   (population (self sd))\<lparr>individuals := indvs[0 := b]\<rparr>\<rparr>\<rparr>"
  using assms unfolding next_generation_def
  by (auto elim!: bind_mE split: list.splits)

lemma next_generation_returns:
  assumes "next_generation C g s = (Inr (), s1)"
  shows "\<exists>b w' indvs.
           best_indv C (population (self s))
             (call_fitness (fitness (self s)) (view ((self s)\<lparr>current_generation := g\<rparr>)))
             (world s) = (Inr b, w')
           \<and> indvs \<noteq> []
           \<and> population (self s1) = (population (self s))\<lparr>individuals := indvs[0 := b]\<rparr>"
proof -
  from assms obtain b sa local_size sb local_indvs sc indvs sd where
    1: "call (best_indv C (population (self s))
            (call_fitness (fitness (self s)) (view ((self s)\<lparr>current_generation := g\<rparr>))))
       (s\<lparr>self := (self s)\<lparr>current_generation := g\<rparr>\<rparr>) = (Inr b, sa)"
    and 2: "call (split_size C (pop_size (population (self sa)) div 2)) sa = (Inr local_size, sb)"
    and 3: "fill C (nat local_size) [] sb = (Inr local_indvs, sc)"
    and 4: "call (merge_seq C local_indvs) sc = (Inr indvs, sd)"
    and 5: "indvs \<noteq> []"
    and 6: "s1 = sd\<lparr>self := (self sd)\<lparr>population :=
                   (population (self sd))\<lparr>individuals := indvs[0 := b]\<rparr>\<rparr>\<rparr>"
    by (rule next_generation_returnsE)
  from 1 obtain w' where
    w': "best_indv C (population (self s))
           (call_fitness (fitness (self s)) (view ((self s)\<lparr>current_generation := g\<rparr>)))
           (world s) = (Inr b, w')"
    by (auto simp: call_def split: prod.splits)
  from call_keeps [OF 1] call_keeps [OF 2] fill_keeps [OF 3] call_keeps [OF 4]
  have "population (self sd) = population (self s)"
    by simp
  with 5 6 w' show ?thesis
    by auto
qed

text \<open>
  C1. In every generation \<open>g\<close> whose merge-and-replace step completes, the individual
  at index 0 of the new population is the one that \<^verbatim>\<open>best_indv\<close> returned for the
  population as it was before the generation, under the active fitness function called
  with the generation counter already set to \<open>g\<close>; and it is still there when the
  generation ends, whether the statistics and the hooks complete or raise. Individuals
  are references, so the equality is identity.
\<close>

theorem C1_elitism:
  assumes "next_generation C g s = (Inr (), s1)" and "generation C g s = (r, s')"
  shows "\<exists>b w'.
           best_indv C (population (self s))
             (call_fitness (fitness (self s)) (view ((self s)\<lparr>current_generation := g\<rparr>)))
             (world s) = (Inr b, w')
           \<and> individuals (population (self s1)) \<noteq> []
           \<and> individuals (population (self s1)) ! 0 = b
           \<and> population (self s') = population (self s1)"
proof -
  from next_generation_returns [OF assms(1)] obtain b w' indvs where
    b: "best_indv C (population (self s))
          (call_fitness (fitness (self s)) (view ((self s)\<lparr>current_generation := g\<rparr>)))
          (world s) = (Inr b, w')"
    and indvs: "indvs \<noteq> []"
      "population (self s1) = (population (self s))\<lparr>individuals := indvs[0 := b]\<rparr>"
    by blast
  from assms have "bind_m (update_stats C)
          (\<lambda>_ s. run_analysis C g 0 (analysis (self s)) s) s1 = (r, s')"
    by (simp add: generation_def bind_m_def)
  then have "population (self s') = population (self s1)"
    by (auto elim!: bind_mE dest!: update_stats_keeps run_analysis_keeps)
  with b indvs show ?thesis
    by auto
qed

theorem C1_elitism_witness:
  "fst (next_generation (single_process None) 0 registered) = Inr ()
   \<and> best_indv (single_process None) (population (self registered))
        (call_fitness (fitness (self registered))
           (view ((self registered)\<lparr>current_generation := 0\<rparr>)))
        (world registered) = (Inr 2, ())
   \<and> individuals (population (self (snd (next_generation (single_process None) 0 registered))))
       = [2, 11]
   \<and> population (self (snd (generation (single_process None) 0 registered)))
       = \<lparr>pop_size = 2, individuals = [2, 11]\<rparr>"
proof -
  have f1: "fst (next_generation (single_process None) 0 registered) = Inr ()"
    by (simp add: run_simps)
  then have h1: "next_generation (single_process None) 0 registered
              = (Inr (), snd (next_generation (single_process None) 0 registered))"
    by (simp add: prod_eq_iff)
  have h2: "generation (single_process None) 0 registered
              = (fst (generation (single_process None) 0 registered),
                 snd (generation (single_process None) 0 registered))"
    by simp
  have vals: "individuals (population (self (snd (next_generation (single_process None) 0
                  registered)))) = [2, 11]"
    "population (self (snd (generation (single_process None) 0 registered)))
       = \<lparr>pop_size = 2, individuals = [2, 11]\<rparr>"
    by (simp_all add: run_simps)
  from C1_elitism [OF h1 h2] obtain b w' where
    "best_indv (single_process None) (population (self registered))
        (call_fitness (fitness (self registered))
           (view ((self registered)\<lparr>current_generation := 0\<rparr>)))
        (world registered) = (Inr b, w')"
    and "individuals (population (self (snd (next_generation (single_process None) 0
            registered)))) ! 0 = b"
    by blast
  with f1 vals show ?thesis
    by simp
qed

subsection \<open>The exits of the loop\<close>







subsection \<open>The cadence of the hooks\<close>




subsection \<open>The size of the population\<close>






end
